theory Spec2Isabelle
  imports Complex_Main
begin

section \<open>Data model of \<open>lbrynet/core/server/BlobRequestHandler.py\<close>\<close>

text \<open>
  Python values that occur in a response dictionary: strings, integers, lists of blob
  hashes and nested dictionaries. A dictionary is a map from keys to values.
\<close>

datatype pyval =
    PStr string
  | PInt nat
  | PList "string list"
  | PDict "string \<Rightarrow> pyval option"

type_synonym response = "string \<Rightarrow> pyval option"

text \<open>
  Exceptions and failed deferreds. \<open>Failure\<close> is a failed deferred handed back by a
  collaborator (blob manager); \<open>AttributeError\<close> is an attribute access on \<open>None\<close>;
  \<open>AssertionError\<close> is the assertion of \<open>start_transfer\<close>; \<open>TypeError\<close> is
  \<open>len\<close> of a value that has no length.
\<close>

datatype error = Failure | AttributeError | AssertionError | TypeError

text \<open>
  The classes \<open>Offer\<close>, the reply of the strategy, the peer and the blob are declared
  outside this file. They are taken with the attributes the handler reads:
  \<open>reply.accepted\<close>, \<open>reply.rate\<close>, \<open>peer.host\<close>, \<open>blob.blob_hash\<close>,
  \<open>blob.length\<close>, \<open>blob.is_validated()\<close> and the result of
  \<open>blob.open_for_reading()\<close> (a handle, or \<open>None\<close>). Rates are numbers; their
  arithmetic is taken exactly, over the rationals.
\<close>

datatype offer = Offer rat

record reply =
  accepted :: bool
  rate :: rat

datatype peer = Peer (host: string)

record blob =
  blob_hash :: string
  blob_length :: nat
  is_validated :: bool
  open_for_reading :: "nat option"

text \<open>
  The calls the handler makes on its collaborators (blob manager, blobs, wallet, peer,
  file sender), in the order it makes them. The handler appends to this log; nothing
  reads it.
\<close>

datatype call =
    Completed_Blobs "string list"
  | Get_Blob string
  | Open_For_Reading blob "nat option"
  | Close_Read_Handle blob "nat option"
  | Add_Blob_To_Upload_History blob string rat
  | Begin_File_Transfer nat
  | Add_Expected_Payment "peer option" rat
  | Update_Stats string nat

text \<open>
  What the collaborators answer: the blob manager's \<open>completed_blobs\<close>, \<open>get_blob\<close>
  and \<open>add_blob_to_upload_history\<close> (each a deferred that may fail), the strategy's
  \<open>respond_to_offer\<close> and \<open>Negotiate.make_dict_from_offer\<close>.
\<close>

record collaborators =
  completed_blobs :: "string list \<Rightarrow> error + string list"
  get_blob :: "string \<Rightarrow> error + blob"
  add_blob_to_upload_history :: "blob \<Rightarrow> string \<Rightarrow> rat \<Rightarrow> error option"
  respond_to_offer :: "offer \<Rightarrow> peer option \<Rightarrow> pyval \<Rightarrow> reply"
  make_dict_from_offer :: "reply \<Rightarrow> response"

text \<open>
  A query batch: the three recognised keys \<open>blob_data_payment_rate\<close>,
  \<open>requested_blob\<close> and \<open>requested_blobs\<close>, each present or absent. Other keys
  are never looked at.
\<close>

record queries =
  q_blob_data_payment_rate :: "rat option"
  q_requested_blob :: "string option"
  q_requested_blobs :: "string list option"

text \<open>
  The fields of \<open>BlobRequestHandler\<close> that its methods assign, and the log of
  collaborator calls. The references to the blob manager, the wallet and the strategy and
  the list \<open>query_identifiers\<close> are set once in \<open>__init__\<close>; the collaborators'
  answers are a parameter of each operation and the three identifiers are the fields of
  \<open>queries\<close>. \<open>file_sender\<close> tells whether the field holds a \<open>FileSender\<close>.
\<close>

record handler =
  peer :: "peer option"
  blob_data_payment_rate :: "rat option"
  read_handle :: "nat option"
  currently_uploading :: "blob option"
  file_sender :: bool
  blob_bytes_uploaded :: nat
  blobs_requested :: "string list"
  calls :: "call list"

text \<open>\<open>__init__\<close>, and \<open>register_with_request_handler\<close> (which sets the peer).\<close>

definition init :: handler where
  "init = \<lparr>peer = None, blob_data_payment_rate = None, read_handle = None,
           currently_uploading = None, file_sender = False, blob_bytes_uploaded = 0,
           blobs_requested = [], calls = []\<rparr>"

definition register_with_request_handler :: "peer \<Rightarrow> handler \<Rightarrow> handler" where
  "register_with_request_handler p s = s\<lparr>peer := Some p\<rparr>"

definition called :: "call \<Rightarrow> handler \<Rightarrow> handler" where
  "called c s = s\<lparr>calls := calls s @ [c]\<rparr>"

section \<open>The query handler\<close>

text \<open>
  A deferred that has fired is its result (\<open>Inl\<close> a failure) with the handler state
  reached; \<open>addCallback\<close> runs the callback on a success and passes a failure on.
\<close>

definition addCallback ::
  "(error + 'a) \<times> handler \<Rightarrow> ('a \<Rightarrow> handler \<Rightarrow> (error + 'b) \<times> handler)
     \<Rightarrow> (error + 'b) \<times> handler" where
  "addCallback d f = (case d of (Inl e, s) \<Rightarrow> (Inl e, s) | (Inr r, s) \<Rightarrow> f r s)"

definition get_available_blobs ::
  "collaborators \<Rightarrow> string list \<Rightarrow> handler \<Rightarrow> (error + string list) \<times> handler" where
  "get_available_blobs c requested s =
     (completed_blobs c requested, called (Completed_Blobs requested) s)"

definition reply_to_availability ::
  "collaborators \<Rightarrow> response \<Rightarrow> string list \<Rightarrow> handler \<Rightarrow> (error + response) \<times> handler" where
  "reply_to_availability c request blobs s =
     addCallback (get_available_blobs c blobs s)
       (\<lambda>available_blobs s'. (Inr (request(''available_blobs'' \<mapsto> PList available_blobs)), s'))"

definition open_blob_for_reading ::
  "blob \<Rightarrow> response \<Rightarrow> handler \<Rightarrow> (response \<times> blob) \<times> handler" where
  "open_blob_for_reading b response s =
     (if is_validated b then
        (let s1 = called (Open_For_Reading b (open_for_reading b)) s in
         case open_for_reading b of
           Some h \<Rightarrow>
             ((response(''incoming_blob'' \<mapsto>
                 PDict [''blob_hash'' \<mapsto> PStr (blob_hash b),
                        ''length'' \<mapsto> PInt (blob_length b)]), b),
              s1\<lparr>currently_uploading := Some b, read_handle := Some h\<rparr>)
         | None \<Rightarrow> ((response(''error'' \<mapsto> PStr ''BLOB_UNAVAILABLE''), b), s1))
      else ((response(''error'' \<mapsto> PStr ''BLOB_UNAVAILABLE''), b), s))"

definition record_transaction ::
  "collaborators \<Rightarrow> response \<Rightarrow> blob \<Rightarrow> rat \<Rightarrow> handler \<Rightarrow> (error + response) \<times> handler" where
  "record_transaction c response b r s =
     (case peer s of
        None \<Rightarrow> (Inl AttributeError, s)
      | Some p \<Rightarrow>
          (let s1 = called (Add_Blob_To_Upload_History b (host p) r) s in
           case add_blob_to_upload_history c b (host p) r of
             Some e \<Rightarrow> (Inl e, s1)
           | None \<Rightarrow> (Inr response, s1)))"

definition reply_to_send_request ::
  "collaborators \<Rightarrow> response \<Rightarrow> string \<Rightarrow> handler \<Rightarrow> (error + response) \<times> handler" where
  "reply_to_send_request c response incoming s =
     (let response1 = response(''incoming_blob'' \<mapsto> PDict Map.empty) in
      case blob_data_payment_rate s of
        None \<Rightarrow> (Inr (response1(''error'' \<mapsto> PStr ''RATE_UNSET'')), s)
      | Some r \<Rightarrow>
          addCallback (get_blob c incoming, called (Get_Blob incoming) s)
            (\<lambda>b s1. case open_blob_for_reading b response1 s1 of
                       ((r1, b1), s2) \<Rightarrow> record_transaction c r1 b1 r s2))"

text \<open>
  \<open>request.get("available_blobs", [])\<close>, and \<open>len\<close> of it (evaluated for the log
  line of \<open>reply_to_offer\<close>): an integer has no length.
\<close>

definition get_available_blobs_field :: "response \<Rightarrow> pyval" where
  "get_available_blobs_field request =
     (case request ''available_blobs'' of Some v \<Rightarrow> v | None \<Rightarrow> PList [])"

definition has_len :: "pyval \<Rightarrow> bool" where
  "has_len v = (case v of PInt n \<Rightarrow> False | _ \<Rightarrow> True)"

definition reply_to_offer ::
  "collaborators \<Rightarrow> offer \<Rightarrow> response \<Rightarrow> handler \<Rightarrow> (error + response) \<times> handler" where
  "reply_to_offer c offer request s =
     (let blobs = get_available_blobs_field request in
      if has_len blobs then
        (let reply = respond_to_offer c offer (peer s) blobs;
             s1 = (if accepted reply then s\<lparr>blob_data_payment_rate := Some (rate reply)\<rparr>
                   else s)
         in (Inr (request ++ make_dict_from_offer c reply), s1))
      else (Inl TypeError, s))"

definition handle_queries ::
  "collaborators \<Rightarrow> queries \<Rightarrow> handler \<Rightarrow> (error + response) \<times> handler" where
  "handle_queries c qs s =
     (let response = (Inr Map.empty, s);
          response =
            (case q_requested_blobs qs of
               Some bs \<Rightarrow>
                 addCallback (fst response, (snd response)\<lparr>blobs_requested := bs\<rparr>)
                   (\<lambda>r s'. reply_to_availability c r (blobs_requested s') s')
             | None \<Rightarrow> response);
          response =
            (case q_blob_data_payment_rate qs of
               Some x \<Rightarrow>
                 addCallback response (\<lambda>r s'. reply_to_offer c (Offer x) r s')
             | None \<Rightarrow> response);
          response =
            (case q_requested_blob qs of
               Some incoming \<Rightarrow>
                 addCallback response (\<lambda>r s'. reply_to_send_request c Map.empty incoming s')
             | None \<Rightarrow> response)
      in response)"

section \<open>The blob sender\<close>

text \<open>
  The local functions of \<open>send_file\<close>. \<open>count_bytes\<close> is the callback the file sender
  runs on each chunk (of the given length); \<open>start_transfer\<close> is the synchronous part
  of \<open>send_file\<close>; \<open>transfer_done\<close> is the callback chain of \<open>inner_d\<close>, run when the
  file sender's deferred fires with success (\<open>True\<close>) or with a failure:
  \<open>set_expected_payment\<close> by \<open>addCallback\<close>, then \<open>set_not_uploading\<close> by \<open>addBoth\<close>.
\<close>

definition count_bytes :: "nat \<Rightarrow> handler \<Rightarrow> (error + nat) \<times> handler" where
  "count_bytes n s =
     (let s1 = s\<lparr>blob_bytes_uploaded := blob_bytes_uploaded s + n\<rparr> in
      case peer s1 of
        None \<Rightarrow> (Inl AttributeError, s1)
      | Some p \<Rightarrow> (Inr n, called (Update_Stats ''blob_bytes_uploaded'' n) s1))"

definition start_transfer :: "handler \<Rightarrow> (error + unit) \<times> handler" where
  "start_transfer s =
     (let s1 = s\<lparr>file_sender := True\<rparr> in
      case read_handle s1 of
        None \<Rightarrow> (Inl AssertionError, s1)
      | Some h \<Rightarrow> (Inr (), called (Begin_File_Transfer h) s1))"

definition update_blobs_uploaded :: "handler \<Rightarrow> (error + unit) \<times> handler" where
  "update_blobs_uploaded s =
     (case peer s of
        None \<Rightarrow> (Inl AttributeError, s)
      | Some p \<Rightarrow> (Inr (), called (Update_Stats ''blobs_uploaded'' 1) s))"

definition set_expected_payment :: "handler \<Rightarrow> (error + unit) \<times> handler" where
  "set_expected_payment s =
     (case blob_data_payment_rate s of
        Some r \<Rightarrow>
          (if blob_bytes_uploaded s \<noteq> 0 then
             (case currently_uploading s of
                None \<Rightarrow> (Inl AttributeError, s)
              | Some b \<Rightarrow>
                  update_blobs_uploaded
                    ((called (Add_Expected_Payment (peer s)
                                (of_nat (blob_length b) * 1 * r / 2 ^ 20)) s)
                       \<lparr>blob_bytes_uploaded := 0\<rparr>))
           else update_blobs_uploaded s)
      | None \<Rightarrow> update_blobs_uploaded s)"

definition set_not_uploading :: "handler \<Rightarrow> handler" where
  "set_not_uploading s =
     (let s1 = (case currently_uploading s of
                  Some b \<Rightarrow>
                    (called (Close_Read_Handle b (read_handle s)) s)
                      \<lparr>read_handle := None, currently_uploading := None\<rparr>
                | None \<Rightarrow> s)
      in s1\<lparr>file_sender := False\<rparr>)"

definition transfer_done :: "bool \<Rightarrow> handler \<Rightarrow> handler" where
  "transfer_done ok s =
     (if ok then set_not_uploading (snd (set_expected_payment s))
      else set_not_uploading s)"

text \<open>
  \<open>send_file\<close> returns the deferred \<open>inner_d\<close>, which has not fired yet
  (\<open>Transfer_Pending\<close>); \<open>send_blob_if_requested\<close> returns it, or a deferred that has
  succeeded with \<open>True\<close>.
\<close>

datatype sending = Succeeded_True | Transfer_Pending

definition send_file :: "handler \<Rightarrow> (error + sending) \<times> handler" where
  "send_file s =
     (case start_transfer s of
        (Inl e, s1) \<Rightarrow> (Inl e, s1)
      | (Inr u, s1) \<Rightarrow> (Inr Transfer_Pending, s1))"

definition send_blob_if_requested :: "handler \<Rightarrow> (error + sending) \<times> handler" where
  "send_blob_if_requested s =
     (if currently_uploading s \<noteq> None then send_file s
      else (Inr Succeeded_True, s))"

definition cancel_send :: "'e \<Rightarrow> handler \<Rightarrow> 'e \<times> handler" where
  "cancel_send err s =
     (let s1 = (case currently_uploading s of
                  Some b \<Rightarrow> called (Close_Read_Handle b (read_handle s)) s
                | None \<Rightarrow> s)
      in (err, s1\<lparr>read_handle := None, currently_uploading := None\<rparr>))"

section \<open>Runs of the handler\<close>

text \<open>
  The operations the transport and the file sender perform on one handler, and the state
  after a sequence of them. The results of the operations are dropped here.
\<close>

datatype event =
    Register peer
  | Handle_Queries collaborators queries
  | Send_Blob_If_Requested
  | Count_Bytes nat
  | Transfer_Done bool
  | Cancel_Send

fun step :: "event \<Rightarrow> handler \<Rightarrow> handler" where
  "step (Register p) s = register_with_request_handler p s"
| "step (Handle_Queries c qs) s = snd (handle_queries c qs s)"
| "step Send_Blob_If_Requested s = snd (send_blob_if_requested s)"
| "step (Count_Bytes n) s = snd (count_bytes n s)"
| "step (Transfer_Done ok) s = transfer_done ok s"
| "step Cancel_Send s = snd (cancel_send () s)"

fun run :: "event list \<Rightarrow> handler \<Rightarrow> handler" where
  "run [] s = s"
| "run (e # es) s = run es (step e s)"

subsection \<open>Read handles in the log of calls\<close>

text \<open>
  A handle is acquired by a call of \<open>open_for_reading\<close> that returns one, and released
  by a call of \<open>close_read_handle\<close>. \<open>held_after\<close> follows the log from no handle
  held: it is \<open>None\<close> when a handle is acquired while one is held or released while
  none is, and otherwise tells whether a handle is held at the end.
\<close>

definition is_open :: "call \<Rightarrow> bool" where
  "is_open c = (case c of Open_For_Reading b (Some h) \<Rightarrow> True | _ \<Rightarrow> False)"

definition is_close :: "call \<Rightarrow> bool" where
  "is_close c = (case c of Close_Read_Handle b h \<Rightarrow> True | _ \<Rightarrow> False)"

definition opens :: "call list \<Rightarrow> nat" where
  "opens cs = length (filter is_open cs)"

definition closes :: "call list \<Rightarrow> nat" where
  "closes cs = length (filter is_close cs)"

fun track :: "call \<Rightarrow> bool option \<Rightarrow> bool option" where
  "track c None = None"
| "track c (Some held) =
     (if is_open c then (if held then None else Some True)
      else if is_close c then (if held then Some False else None)
      else Some held)"

definition held_after :: "call list \<Rightarrow> bool option" where
  "held_after cs = fold track cs (Some False)"

text \<open>
  A run in which a download request is only handled while no blob is being uploaded (the
  transport asks for the payload after every response, before it handles the next batch).
\<close>

fun admissible :: "event \<Rightarrow> handler \<Rightarrow> bool" where
  "admissible (Handle_Queries c qs) s =
     (q_requested_blob qs = None \<or> currently_uploading s = None)"
| "admissible (Register p) s = True"
| "admissible Send_Blob_If_Requested s = True"
| "admissible (Count_Bytes n) s = True"
| "admissible (Transfer_Done ok) s = True"
| "admissible Cancel_Send s = True"

fun one_at_a_time :: "event list \<Rightarrow> handler \<Rightarrow> bool" where
  "one_at_a_time [] s = True"
| "one_at_a_time (e # es) s = (admissible e s \<and> one_at_a_time es (step e s))"

subsection \<open>Offers in a run\<close>

text \<open>
  The reply the strategy gives in the negotiation stage of a batch: none when the batch
  has no offer or the stage is not reached. The response the stage receives is the one
  the batch without its offer and its download request produces.
\<close>

definition negotiation_reply :: "collaborators \<Rightarrow> queries \<Rightarrow> handler \<Rightarrow> reply option" where
  "negotiation_reply c qs s =
     (case q_blob_data_payment_rate qs of
        None \<Rightarrow> None
      | Some x \<Rightarrow>
          (case handle_queries c
                  (qs\<lparr>q_blob_data_payment_rate := None, q_requested_blob := None\<rparr>) s of
             (Inl e, s1) \<Rightarrow> None
           | (Inr r, s1) \<Rightarrow>
               (if has_len (get_available_blobs_field r)
                then Some (respond_to_offer c (Offer x) (peer s1) (get_available_blobs_field r))
                else None)))"

fun accepts :: "event \<Rightarrow> handler \<Rightarrow> bool" where
  "accepts (Handle_Queries c qs) s =
     (case negotiation_reply c qs s of Some rp \<Rightarrow> accepted rp | None \<Rightarrow> False)"
| "accepts (Register p) s = False"
| "accepts Send_Blob_If_Requested s = False"
| "accepts (Count_Bytes n) s = False"
| "accepts (Transfer_Done ok) s = False"
| "accepts Cancel_Send s = False"

fun no_accepted_offer :: "event list \<Rightarrow> handler \<Rightarrow> bool" where
  "no_accepted_offer [] s = True"
| "no_accepted_offer (e # es) s = (\<not> accepts e s \<and> no_accepted_offer es (step e s))"

section \<open>An example connection\<close>

text \<open>
  A blob manager that holds the validated blob \<open>X\<close> of one mebibyte and knows every
  other hash as a blob that is not validated, a strategy that accepts an offer of at
  least a quarter at the offered rate, and a handler registered for a peer. They are the
  concrete inputs of the examples below.
\<close>

definition blob_X :: blob where
  "blob_X = \<lparr>blob_hash = ''X'', blob_length = 1048576, is_validated = True,
              open_for_reading = Some 7\<rparr>"

definition blob_missing :: "string \<Rightarrow> blob" where
  "blob_missing h = \<lparr>blob_hash = h, blob_length = 0, is_validated = False,
                      open_for_reading = None\<rparr>"

definition example_strategy :: "offer \<Rightarrow> peer option \<Rightarrow> pyval \<Rightarrow> reply" where
  "example_strategy off p v =
     (case off of Offer x \<Rightarrow> \<lparr>accepted = (1 / 4 \<le> x), rate = x\<rparr>)"

definition example_dict :: "reply \<Rightarrow> response" where
  "example_dict rp =
     [''blob_data_payment_rate'' \<mapsto>
        PStr (if accepted rp then ''RATE_ACCEPTED'' else ''RATE_TOO_LOW'')]"

definition example_collaborators :: collaborators where
  "example_collaborators =
     \<lparr>completed_blobs = (\<lambda>bs. Inr (filter (\<lambda>h. h = ''X'') bs)),
      get_blob = (\<lambda>h. Inr (if h = ''X'' then blob_X else blob_missing h)),
      add_blob_to_upload_history = (\<lambda>b h r. None),
      respond_to_offer = example_strategy,
      make_dict_from_offer = example_dict\<rparr>"

definition example_peer :: peer where
  "example_peer = Peer ''10.0.0.1''"

definition registered :: handler where
  "registered = register_with_request_handler example_peer init"

definition negotiated :: handler where
  "negotiated = registered\<lparr>blob_data_payment_rate := Some (1 / 2)\<rparr>"

definition only_offer :: "rat \<Rightarrow> queries" where
  "only_offer x = \<lparr>q_blob_data_payment_rate = Some x, q_requested_blob = None,
                    q_requested_blobs = None\<rparr>"

definition only_download :: "string \<Rightarrow> queries" where
  "only_download h = \<lparr>q_blob_data_payment_rate = None, q_requested_blob = Some h,
                       q_requested_blobs = None\<rparr>"

definition offer_and_download :: "rat \<Rightarrow> string \<Rightarrow> queries" where
  "offer_and_download x h = \<lparr>q_blob_data_payment_rate = Some x, q_requested_blob = Some h,
                              q_requested_blobs = None\<rparr>"

definition whole_batch :: queries where
  "whole_batch = \<lparr>q_blob_data_payment_rate = Some (1 / 2), q_requested_blob = Some ''X'',
                   q_requested_blobs = Some [''X'', ''Y'']\<rparr>"

definition uploading :: handler where
  "uploading = negotiated\<lparr>currently_uploading := Some blob_X, read_handle := Some 7,
                           file_sender := True, blob_bytes_uploaded := 200000\<rparr>"

text \<open>
  Three runs: an offer that is refused and a download; a second download request handled
  while the first blob is still waiting to be sent; and a transfer that is cancelled
  after 200000 bytes, followed by a transfer that succeeds.
\<close>

definition rejected_then_download :: "event list" where
  "rejected_then_download =
     [Handle_Queries example_collaborators (only_offer (1 / 8)),
      Handle_Queries example_collaborators (only_download ''X'')]"

definition two_downloads :: "event list" where
  "two_downloads =
     [Register example_peer,
      Handle_Queries example_collaborators (offer_and_download (1 / 2) ''X''),
      Handle_Queries example_collaborators (only_download ''X''),
      Send_Blob_If_Requested, Count_Bytes 1048576, Transfer_Done True]"

definition cancelled_then_sent :: "event list" where
  "cancelled_then_sent =
     [Register example_peer,
      Handle_Queries example_collaborators (offer_and_download (1 / 2) ''X''),
      Send_Blob_If_Requested, Count_Bytes 200000, Cancel_Send, Transfer_Done False,
      Handle_Queries example_collaborators (only_download ''X''),
      Send_Blob_If_Requested, Count_Bytes 1048576, Transfer_Done True]"

section \<open>Properties\<close>

lemmas example_defs = blob_X_def blob_missing_def example_strategy_def example_dict_def
  example_collaborators_def example_peer_def registered_def negotiated_def only_offer_def
  only_download_def init_def register_with_request_handler_def offer_and_download_def
  whole_batch_def uploading_def

lemmas send_request_defs = reply_to_send_request_def addCallback_def
  open_blob_for_reading_def record_transaction_def called_def Let_def

subsection \<open>Download servicing\<close>

text \<open>
  Claim C1, as the code has it: when the rate is set, the blob manager hands the blob
  over and the handler is registered for a peer, \<open>_reply_to_send_request\<close> calls
  \<open>add_blob_to_upload_history\<close> exactly once, with the blob, the peer's host and the
  rate, after \<open>get_blob\<close> and after \<open>open_for_reading\<close> (called when the blob is
  validated), whether or not a blob is then being uploaded.
\<close>

theorem upload_history_always_recorded:
  assumes "blob_data_payment_rate s = Some r" and "get_blob c incoming = Inr b"
    and "peer s = Some p"
  shows "calls (snd (reply_to_send_request c response incoming s)) =
           calls s @ [Get_Blob incoming]
             @ (if is_validated b then [Open_For_Reading b (open_for_reading b)] else [])
             @ [Add_Blob_To_Upload_History b (host p) r]"
  using assms by (simp add: send_request_defs split: option.splits)

theorem upload_history_always_recorded_witness:
  "blob_data_payment_rate negotiated = Some (1 / 2)
   \<and> get_blob example_collaborators ''X'' = Inr blob_X
   \<and> peer negotiated = Some example_peer
   \<and> calls (snd (reply_to_send_request example_collaborators Map.empty ''X'' negotiated)) =
       [Get_Blob ''X'', Open_For_Reading blob_X (Some 7),
        Add_Blob_To_Upload_History blob_X ''10.0.0.1'' (1 / 2)]"
proof -
  have a: "blob_data_payment_rate negotiated = Some (1 / 2)" by (simp add: example_defs)
  have b: "get_blob example_collaborators ''X'' = Inr blob_X" by (simp add: example_defs)
  have c: "peer negotiated = Some example_peer" by (simp add: example_defs)
  show ?thesis
    using upload_history_always_recorded [OF a b c, of Map.empty] a b c
    by (simp add: example_defs)
qed

text \<open>
  Claim C1 as it is stated fails: with the rate set and the blob \<open>Y\<close> not validated, the
  response carries \<open>BLOB_UNAVAILABLE\<close>, no blob is being uploaded, and the upload
  history has been written all the same.
\<close>

theorem upload_history_recorded_when_unavailable:
  "currently_uploading
     (snd (reply_to_send_request example_collaborators Map.empty ''Y'' negotiated)) = None
   \<and> fst (reply_to_send_request example_collaborators Map.empty ''Y'' negotiated) =
       Inr [''incoming_blob'' \<mapsto> PDict Map.empty,
            ''error'' \<mapsto> PStr ''BLOB_UNAVAILABLE'']
   \<and> calls (snd (reply_to_send_request example_collaborators Map.empty ''Y'' negotiated)) =
       [Get_Blob ''Y'', Add_Blob_To_Upload_History (blob_missing ''Y'') ''10.0.0.1'' (1 / 2)]"
  by (simp add: send_request_defs example_defs)

text \<open>
  Claim C3: while the rate is unset, \<open>_reply_to_send_request\<close> returns the response
  with the error \<open>RATE_UNSET\<close> (and an empty \<open>incoming_blob\<close>) and leaves the handler
  as it was: no blob is being uploaded that was not before, no handle is opened, and the
  log of calls is unchanged, so neither \<open>get_blob\<close> nor \<open>add_blob_to_upload_history\<close>
  has been called.
\<close>

theorem rate_unset_no_effect:
  assumes "blob_data_payment_rate s = None"
  shows "reply_to_send_request c response incoming s =
           (Inr (response(''incoming_blob'' \<mapsto> PDict Map.empty,
                          ''error'' \<mapsto> PStr ''RATE_UNSET'')), s)"
  using assms by (simp add: reply_to_send_request_def)

theorem rate_unset_no_effect_witness:
  "blob_data_payment_rate registered = None
   \<and> reply_to_send_request example_collaborators Map.empty ''X'' registered =
       (Inr [''incoming_blob'' \<mapsto> PDict Map.empty, ''error'' \<mapsto> PStr ''RATE_UNSET''],
        registered)"
proof -
  have a: "blob_data_payment_rate registered = None" by (simp add: example_defs)
  show ?thesis
    using rate_unset_no_effect [OF a, of example_collaborators Map.empty "''X''"] a
    by simp
qed



subsection \<open>The blob sender\<close>

text \<open>
  Claim C9: when no blob is being uploaded, \<open>send_blob_if_requested\<close> returns a
  deferred that has succeeded with \<open>True\<close>, raises nothing, calls no collaborator
  and leaves the handler as it was.
\<close>

theorem nothing_to_send:
  assumes "currently_uploading s = None"
  shows "send_blob_if_requested s = (Inr Succeeded_True, s)"
  using assms by (simp add: send_blob_if_requested_def)

theorem nothing_to_send_witness:
  "currently_uploading registered = None
   \<and> send_blob_if_requested registered = (Inr Succeeded_True, registered)"
proof -
  have a: "currently_uploading registered = None" by (simp add: example_defs)
  show ?thesis using nothing_to_send [OF a] a by simp
qed

text \<open>
  Claim C8: \<open>cancel_send\<close> returns the reason it is given. When a blob is being
  uploaded it calls \<open>close_read_handle\<close> once, on that blob with the handler's handle,
  and clears both fields; when none is, it calls nothing. A second call, whatever its
  reason, returns that reason and changes nothing more.
\<close>

theorem cancel_send_passes_reason:
  "fst (cancel_send err s) = err
   \<and> (\<forall>b. currently_uploading s = Some b \<longrightarrow>
        snd (cancel_send err s) =
          s\<lparr>read_handle := None, currently_uploading := None,
            calls := calls s @ [Close_Read_Handle b (read_handle s)]\<rparr>)
   \<and> (currently_uploading s = None \<longrightarrow>
        snd (cancel_send err s) = s\<lparr>read_handle := None\<rparr>
        \<and> calls (snd (cancel_send err s)) = calls s)
   \<and> cancel_send err' (snd (cancel_send err s)) = (err', snd (cancel_send err s))"
  by (simp add: cancel_send_def called_def)

theorem cancel_send_passes_reason_witness:
  "currently_uploading uploading = Some blob_X
   \<and> cancel_send ''connection lost'' uploading =
       (''connection lost'',
        uploading\<lparr>read_handle := None, currently_uploading := None,
                  calls := [Close_Read_Handle blob_X (Some 7)]\<rparr>)
   \<and> currently_uploading registered = None
   \<and> cancel_send ''connection lost'' registered = (''connection lost'', registered)"
proof -
  have a: "currently_uploading uploading = Some blob_X" by (simp add: example_defs)
  have b: "currently_uploading registered = None" by (simp add: example_defs)
  have c: "calls uploading = []" "read_handle uploading = Some 7"
    by (simp_all add: example_defs)
  have d: "registered\<lparr>read_handle := None\<rparr> = registered" by (simp add: example_defs)
  have u: "cancel_send ''connection lost'' uploading =
             (''connection lost'',
              uploading\<lparr>read_handle := None, currently_uploading := None,
                calls := calls uploading @ [Close_Read_Handle blob_X (read_handle uploading)]\<rparr>)"
    using cancel_send_passes_reason [of "''connection lost''" uploading "''again''"] a
    by (simp add: prod_eq_iff)
  have r: "cancel_send ''connection lost'' registered =
             (''connection lost'', registered\<lparr>read_handle := None\<rparr>)"
    using cancel_send_passes_reason [of "''connection lost''" registered "''again''"] b
    by (simp add: prod_eq_iff)
  show ?thesis using u r a b by (simp add: c d)
qed

lemmas transfer_defs = transfer_done_def set_expected_payment_def set_not_uploading_def
  update_blobs_uploaded_def called_def Let_def




subsection \<open>The stages of a batch\<close>

lemmas handle_queries_defs = handle_queries_def reply_to_availability_def
  get_available_blobs_def reply_to_offer_def get_available_blobs_field_def has_len_def

text \<open>
  Claim C4 at a batch with all three keys. The three stages run in order (the log of
  calls and the rate show it), but the download stage is handed an empty response in
  place of the one accumulated, so the response returned has \<open>incoming_blob\<close> only:
  the available blobs and the strategy's answer are lost. The same batch without the
  download request returns both.
\<close>

theorem download_stage_drops_response:
  "fst (handle_queries example_collaborators whole_batch registered) =
     Inr [''incoming_blob'' \<mapsto>
            PDict [''blob_hash'' \<mapsto> PStr ''X'', ''length'' \<mapsto> PInt 1048576]]
   \<and> calls (snd (handle_queries example_collaborators whole_batch registered)) =
       [Completed_Blobs [''X'', ''Y''], Get_Blob ''X'', Open_For_Reading blob_X (Some 7),
        Add_Blob_To_Upload_History blob_X ''10.0.0.1'' (1 / 2)]
   \<and> blob_data_payment_rate (snd (handle_queries example_collaborators whole_batch registered))
       = Some (1 / 2)
   \<and> fst (handle_queries example_collaborators
            (whole_batch\<lparr>q_requested_blob := None\<rparr>) registered) =
       Inr [''available_blobs'' \<mapsto> PList [''X''],
            ''blob_data_payment_rate'' \<mapsto> PStr ''RATE_ACCEPTED'']"
  by (simp add: handle_queries_defs send_request_defs example_defs)

subsection \<open>Negotiation and the rate\<close>

text \<open>
  Only the negotiation stage writes \<open>blob_data_payment_rate\<close>: the other operations
  leave it as it is, and a batch changes it exactly when the strategy accepts its offer.
\<close>

lemma rate_reply_to_availability:
  "blob_data_payment_rate (snd (reply_to_availability c r bs s)) = blob_data_payment_rate s"
  by (simp add: reply_to_availability_def get_available_blobs_def addCallback_def called_def
      split: sum.splits)

lemma rate_reply_to_send_request:
  "blob_data_payment_rate (snd (reply_to_send_request c r inc s)) = blob_data_payment_rate s"
  by (simp add: send_request_defs split: sum.splits option.splits)

lemma rate_addCallback:
  assumes "\<And>r s. blob_data_payment_rate (snd (f r s)) = blob_data_payment_rate s"
  shows "blob_data_payment_rate (snd (addCallback d f)) = blob_data_payment_rate (snd d)"
  using assms by (cases d) (simp add: addCallback_def split: sum.splits)

lemma rate_handle_queries:
  "blob_data_payment_rate (snd (handle_queries c qs s)) =
     (case negotiation_reply c qs s of
        Some rp \<Rightarrow> if accepted rp then Some (rate rp) else blob_data_payment_rate s
      | None \<Rightarrow> blob_data_payment_rate s)"
  by (simp add: negotiation_reply_def handle_queries_def Let_def rate_addCallback
      rate_reply_to_send_request reply_to_offer_def addCallback_def reply_to_availability_def get_available_blobs_def called_def
      split: option.splits sum.splits prod.splits)


lemma rate_step:
  "\<not> accepts e s \<Longrightarrow> blob_data_payment_rate (step e s) = blob_data_payment_rate s"
  by (cases e)
    (simp_all add: rate_handle_queries register_with_request_handler_def
      send_blob_if_requested_def send_file_def start_transfer_def count_bytes_def
      cancel_send_def transfer_defs split: option.splits sum.splits prod.splits)

lemma rate_run:
  "no_accepted_offer es s \<Longrightarrow> blob_data_payment_rate (run es s) = blob_data_payment_rate s"
  by (induction es arbitrary: s) (simp_all add: rate_step)

lemma rate_step_cases:
  "blob_data_payment_rate (step e s) = blob_data_payment_rate s
   \<or> (\<exists>c qs rp. e = Handle_Queries c qs \<and> negotiation_reply c qs s = Some rp
        \<and> accepted rp \<and> blob_data_payment_rate (step e s) = Some (rate rp))"
proof (cases "accepts e s")
  case False
  then show ?thesis by (simp add: rate_step)
next
  case True
  then show ?thesis
    by (cases e) (auto simp add: rate_handle_queries split: option.splits)
qed

lemma rate_step_set:
  "blob_data_payment_rate s \<noteq> None \<Longrightarrow> blob_data_payment_rate (step e s) \<noteq> None"
  using rate_step_cases [of e s] by auto

lemma rate_run_set:
  "blob_data_payment_rate s \<noteq> None \<Longrightarrow> blob_data_payment_rate (run es s) \<noteq> None"
proof (induction es arbitrary: s)
  case Nil
  then show ?case by simp
next
  case (Cons e es)
  from Cons.prems have "blob_data_payment_rate (step e s) \<noteq> None"
    by (rule rate_step_set)
  then have "blob_data_payment_rate (run es (step e s)) \<noteq> None"
    by (rule Cons.IH)
  then show ?case by simp
qed


lemma no_rate_unset_error:
  assumes "blob_data_payment_rate s \<noteq> None"
    and "fst (reply_to_send_request c Map.empty inc s) = Inr r"
  shows "r ''error'' \<noteq> Some (PStr ''RATE_UNSET'')"
  using assms
  by (auto simp add: send_request_defs split: option.splits sum.splits if_splits)

lemma handle_queries_download:
  assumes "q_requested_blob qs = Some inc"
  shows "handle_queries c qs s =
           addCallback (handle_queries c (qs\<lparr>q_requested_blob := None\<rparr>) s)
             (\<lambda>r s'. reply_to_send_request c Map.empty inc s')"
  using assms by (simp add: handle_queries_def Let_def)

lemma no_rate_unset_error_batch:
  assumes "blob_data_payment_rate s \<noteq> None"
    and "q_requested_blob qs = Some inc"
    and "fst (handle_queries c qs s) = Inr r"
  shows "r ''error'' \<noteq> Some (PStr ''RATE_UNSET'')"
proof -
  let ?d = "handle_queries c (qs\<lparr>q_requested_blob := None\<rparr>) s"
  have set: "blob_data_payment_rate (snd ?d) \<noteq> None"
    using rate_step_set [OF assms(1), of "Handle_Queries c (qs\<lparr>q_requested_blob := None\<rparr>)"]
    by simp
  obtain res s1 where d: "?d = (res, s1)" by (cases ?d)
  show ?thesis
  proof (cases res)
    case (Inl e)
    with d assms(3) show ?thesis
      by (simp add: handle_queries_download [OF assms(2)] addCallback_def)
  next
    case (Inr r1)
    with d assms(3) have "fst (reply_to_send_request c Map.empty inc s1) = Inr r"
      by (simp add: handle_queries_download [OF assms(2)] addCallback_def)
    moreover from set d have "blob_data_payment_rate s1 \<noteq> None" by simp
    ultimately show ?thesis by (rule no_rate_unset_error [rotated])
  qed
qed

lemmas run_defs = handle_queries_defs send_request_defs negotiation_reply_def

text \<open>
  The response the negotiation stage receives is empty or carries the list stored by the
  availability stage, so its \<open>available_blobs\<close> always have a length.
\<close>

lemma available_blobs_have_len:
  assumes "fst (handle_queries c
                 (qs\<lparr>q_blob_data_payment_rate := None, q_requested_blob := None\<rparr>) s) = Inr r"
  shows "has_len (get_available_blobs_field r)"
  using assms
  by (auto simp add: handle_queries_defs addCallback_def called_def Let_def
      split: option.splits sum.splits)

text \<open>
  Claim C7: \<open>reply_to_offer\<close> (the stored \<open>available_blobs\<close> having a length, as
  they have in every batch) returns the request merged with the dictionary made from the
  strategy's reply, whether the reply is accepted or not, and changes the handler in
  \<open>blob_data_payment_rate\<close> only: that field becomes the reply's rate when the reply
  is accepted and is left alone otherwise. After an accepted reply the rate stays the
  reply's rate through every run in which no offer is accepted, and a download request
  served then records that rate in the upload history.
\<close>

theorem offer_sets_rate_iff_accepted:
  assumes "has_len (get_available_blobs_field request)"
    and "rp = respond_to_offer c off (peer s) (get_available_blobs_field request)"
    and "s' = snd (reply_to_offer c off request s)"
  shows "fst (reply_to_offer c off request s) = Inr (request ++ make_dict_from_offer c rp)
       \<and> s' = s\<lparr>blob_data_payment_rate :=
                   if accepted rp then Some (rate rp) else blob_data_payment_rate s\<rparr>
       \<and> (accepted rp \<longrightarrow> no_accepted_offer es s' \<longrightarrow>
            blob_data_payment_rate (run es s') = Some (rate rp)
            \<and> (\<forall>c' inc b p. get_blob c' inc = Inr b \<longrightarrow> peer (run es s') = Some p \<longrightarrow>
                  last (calls (snd (reply_to_send_request c' Map.empty inc (run es s')))) =
                    Add_Blob_To_Upload_History b (host p) (rate rp)))"
proof -
  have s': "s' = s\<lparr>blob_data_payment_rate :=
                   if accepted rp then Some (rate rp) else blob_data_payment_rate s\<rparr>"
    using assms by (simp add: reply_to_offer_def Let_def)
  have r: "fst (reply_to_offer c off request s) = Inr (request ++ make_dict_from_offer c rp)"
    using assms by (simp add: reply_to_offer_def Let_def)
  have "blob_data_payment_rate (run es s') = Some (rate rp)
        \<and> (\<forall>c' inc b p. get_blob c' inc = Inr b \<longrightarrow> peer (run es s') = Some p \<longrightarrow>
              last (calls (snd (reply_to_send_request c' Map.empty inc (run es s')))) =
                Add_Blob_To_Upload_History b (host p) (rate rp))"
    if acc: "accepted rp" and no: "no_accepted_offer es s'"
  proof -
    from s' acc have "blob_data_payment_rate s' = Some (rate rp)" by simp
    with no have kept: "blob_data_payment_rate (run es s') = Some (rate rp)"
      by (simp add: rate_run)
    then show ?thesis
      by (simp add: send_request_defs split: option.splits)
  qed
  with s' r show ?thesis by blast
qed

theorem offer_sets_rate_iff_accepted_witness:
  "has_len (get_available_blobs_field Map.empty)
   \<and> accepted (respond_to_offer example_collaborators (Offer (1 / 2)) (peer registered)
                 (get_available_blobs_field Map.empty))
   \<and> snd (reply_to_offer example_collaborators (Offer (1 / 2)) Map.empty registered) = negotiated
   \<and> no_accepted_offer rejected_then_download negotiated
   \<and> fst (reply_to_offer example_collaborators (Offer (1 / 2)) Map.empty registered) =
       Inr [''blob_data_payment_rate'' \<mapsto> PStr ''RATE_ACCEPTED'']
   \<and> blob_data_payment_rate (run rejected_then_download negotiated) = Some (1 / 2)
   \<and> get_blob example_collaborators ''X'' = Inr blob_X
   \<and> peer (run rejected_then_download negotiated) = Some example_peer
   \<and> last (calls (snd (reply_to_send_request example_collaborators Map.empty ''X''
                          (run rejected_then_download negotiated)))) =
       Add_Blob_To_Upload_History blob_X ''10.0.0.1'' (1 / 2)
   \<and> \<not> accepted (respond_to_offer example_collaborators (Offer (1 / 8)) (peer registered)
                 (get_available_blobs_field Map.empty))
   \<and> reply_to_offer example_collaborators (Offer (1 / 8)) Map.empty registered =
       (Inr [''blob_data_payment_rate'' \<mapsto> PStr ''RATE_TOO_LOW''], registered)"
proof -
  let ?rp = "respond_to_offer example_collaborators (Offer (1 / 2)) (peer registered)
               (get_available_blobs_field Map.empty)"
  let ?rq = "respond_to_offer example_collaborators (Offer (1 / 8)) (peer registered)
               (get_available_blobs_field Map.empty)"
  have a: "has_len (get_available_blobs_field Map.empty)"
    by (simp add: has_len_def get_available_blobs_field_def)
  have b: "accepted ?rp \<and> rate ?rp = 1 / 2" "\<not> accepted ?rq"
    by (simp_all add: example_defs)
  have c: "negotiated = snd (reply_to_offer example_collaborators (Offer (1 / 2)) Map.empty registered)"
    by (simp add: reply_to_offer_def has_len_def get_available_blobs_field_def example_defs)
  have d: "no_accepted_offer rejected_then_download negotiated"
    by (simp add: rejected_then_download_def run_defs example_defs)
  have e: "make_dict_from_offer example_collaborators ?rp =
             [''blob_data_payment_rate'' \<mapsto> PStr ''RATE_ACCEPTED'']"
    "make_dict_from_offer example_collaborators ?rq =
             [''blob_data_payment_rate'' \<mapsto> PStr ''RATE_TOO_LOW'']"
    by (simp_all add: example_defs)
  have f: "registered\<lparr>blob_data_payment_rate := blob_data_payment_rate registered\<rparr> = registered"
    by simp
  note t1 = offer_sets_rate_iff_accepted [OF a refl c, of rejected_then_download]
  note t2 = offer_sets_rate_iff_accepted [OF a refl refl,
      of example_collaborators "Offer (1 / 8)" registered "[]"]
  from t1 b d have g: "blob_data_payment_rate (run rejected_then_download negotiated) = Some (1 / 2)"
    by simp
  have j: "get_blob example_collaborators ''X'' = Inr blob_X"
    "peer (run rejected_then_download negotiated) = Some example_peer"
    by (simp_all add: rejected_then_download_def run_defs example_defs)
  from t1 b d j have k: "last (calls (snd (reply_to_send_request example_collaborators Map.empty
                          ''X'' (run rejected_then_download negotiated)))) =
       Add_Blob_To_Upload_History blob_X ''10.0.0.1'' (1 / 2)"
    by (simp add: example_peer_def)
  from t1 e have h: "fst (reply_to_offer example_collaborators (Offer (1 / 2)) Map.empty registered) =
       Inr [''blob_data_payment_rate'' \<mapsto> PStr ''RATE_ACCEPTED'']"
    by simp
  from t2 b e f have i: "reply_to_offer example_collaborators (Offer (1 / 8)) Map.empty registered =
       (Inr [''blob_data_payment_rate'' \<mapsto> PStr ''RATE_TOO_LOW''], registered)"
    by (simp add: prod_eq_iff)
  from a b c d g h i j k show ?thesis by simp
qed


text \<open>
  Claim C10: the handler starts with the rate unset; a step either leaves the rate as it
  is or is a batch whose offer the strategy accepted, and then sets it to the accepted
  rate; so once the rate is set it stays set through every run, and no download request
  handled afterwards, alone or in a batch, is answered with \<open>RATE_UNSET\<close>.
\<close>

theorem rate_never_unset_again:
  "blob_data_payment_rate init = None
   \<and> (blob_data_payment_rate (step e s) = blob_data_payment_rate s
      \<or> (\<exists>c qs rp. e = Handle_Queries c qs \<and> negotiation_reply c qs s = Some rp
            \<and> accepted rp \<and> blob_data_payment_rate (step e s) = Some (rate rp)))
   \<and> (blob_data_payment_rate s \<noteq> None \<longrightarrow>
        blob_data_payment_rate (run es s) \<noteq> None
        \<and> (\<forall>c inc r. fst (reply_to_send_request c Map.empty inc (run es s)) = Inr r
              \<longrightarrow> r ''error'' \<noteq> Some (PStr ''RATE_UNSET''))
        \<and> (\<forall>c qs inc r. q_requested_blob qs = Some inc
              \<longrightarrow> fst (handle_queries c qs (run es s)) = Inr r
              \<longrightarrow> r ''error'' \<noteq> Some (PStr ''RATE_UNSET'')))"
proof (intro conjI impI allI)
  show "blob_data_payment_rate init = None" by (simp add: init_def)
next
  show "blob_data_payment_rate (step e s) = blob_data_payment_rate s
     \<or> (\<exists>c qs rp. e = Handle_Queries c qs \<and> negotiation_reply c qs s = Some rp
           \<and> accepted rp \<and> blob_data_payment_rate (step e s) = Some (rate rp))"
    by (rule rate_step_cases)
next
  assume "blob_data_payment_rate s \<noteq> None"
  then show "blob_data_payment_rate (run es s) \<noteq> None" by (rule rate_run_set)
next
  fix c inc r
  assume a: "blob_data_payment_rate s \<noteq> None"
    and b: "fst (reply_to_send_request c Map.empty inc (run es s)) = Inr r"
  show "r ''error'' \<noteq> Some (PStr ''RATE_UNSET'')"
    by (rule no_rate_unset_error [OF rate_run_set [OF a] b])
next
  fix c qs inc r
  assume a: "blob_data_payment_rate s \<noteq> None" and b: "q_requested_blob qs = Some inc"
    and c: "fst (handle_queries c qs (run es s)) = Inr r"
  show "r ''error'' \<noteq> Some (PStr ''RATE_UNSET'')"
    by (rule no_rate_unset_error_batch [OF rate_run_set [OF a] b c])
qed


theorem rate_never_unset_again_witness:
  "blob_data_payment_rate negotiated \<noteq> None
   \<and> blob_data_payment_rate (run rejected_then_download negotiated) = Some (1 / 2)
   \<and> q_requested_blob (only_download ''Y'') = Some ''Y''
   \<and> fst (handle_queries example_collaborators (only_download ''Y'')
            (run rejected_then_download negotiated)) =
       Inr [''incoming_blob'' \<mapsto> PDict Map.empty,
            ''error'' \<mapsto> PStr ''BLOB_UNAVAILABLE'']
   \<and> [''incoming_blob'' \<mapsto> PDict Map.empty, ''error'' \<mapsto> PStr ''BLOB_UNAVAILABLE'']
        ''error'' \<noteq> Some (PStr ''RATE_UNSET'')"
proof -
  have a: "blob_data_payment_rate negotiated \<noteq> None" by (simp add: example_defs)
  have b: "q_requested_blob (only_download ''Y'') = Some ''Y''" by (simp add: example_defs)
  have c: "blob_data_payment_rate (run rejected_then_download negotiated) = Some (1 / 2)"
    by (simp add: rejected_then_download_def run_defs example_defs)
  have d: "fst (handle_queries example_collaborators (only_download ''Y'')
                 (run rejected_then_download negotiated)) =
             Inr [''incoming_blob'' \<mapsto> PDict Map.empty,
                  ''error'' \<mapsto> PStr ''BLOB_UNAVAILABLE'']"
    by (simp add: rejected_then_download_def run_defs example_defs)
  from rate_never_unset_again [of Cancel_Send negotiated rejected_then_download] a b d
  have "[''incoming_blob'' \<mapsto> PDict Map.empty, ''error'' \<mapsto> PStr ''BLOB_UNAVAILABLE'']
          ''error'' \<noteq> Some (PStr ''RATE_UNSET'')"
    by blast
  with a b c d show ?thesis by blast
qed

subsection \<open>Read handles\<close>

text \<open>
  Every operation keeps the log of calls in step with the handler: a handle is held at
  the end of the log exactly when a blob is being uploaded, provided a download request
  is only handled while none is.
\<close>

lemma held_after_append: "held_after (cs @ ds) = fold track ds (held_after cs)"
  by (simp add: held_after_def)

lemma track_other: "\<not> is_open c \<Longrightarrow> \<not> is_close c \<Longrightarrow> track c x = x"
  by (cases x) simp_all

lemmas handle_defs = held_after_append track_other is_open_def is_close_def called_def Let_def

lemma handles_batch_without_download:
  assumes "q_requested_blob qs = None"
  shows "held_after (calls (snd (handle_queries c qs s))) = held_after (calls s)
       \<and> currently_uploading (snd (handle_queries c qs s)) = currently_uploading s"
  using assms
  by (simp add: handle_queries_defs addCallback_def handle_defs
      split: option.splits sum.splits prod.splits)

lemma handles_send_request:
  assumes "held_after (calls s) = Some False" and "currently_uploading s = None"
  shows "held_after (calls (snd (reply_to_send_request c r inc s))) =
           Some (currently_uploading (snd (reply_to_send_request c r inc s)) \<noteq> None)"
  using assms
  by (simp add: send_request_defs handle_defs split: option.splits sum.splits)

lemma handles_set_not_uploading:
  assumes "held_after (calls s) = Some (currently_uploading s \<noteq> None)"
  shows "held_after (calls (set_not_uploading s)) =
           Some (currently_uploading (set_not_uploading s) \<noteq> None)"
  using assms by (simp add: set_not_uploading_def handle_defs split: option.splits)

lemma handles_set_expected_payment:
  "held_after (calls (snd (set_expected_payment s))) = held_after (calls s)
   \<and> currently_uploading (snd (set_expected_payment s)) = currently_uploading s"
  by (simp add: set_expected_payment_def update_blobs_uploaded_def handle_defs
      split: option.splits)

lemma handles_cancel_send:
  assumes "held_after (calls s) = Some (currently_uploading s \<noteq> None)"
  shows "held_after (calls (snd (cancel_send err s))) =
           Some (currently_uploading (snd (cancel_send err s)) \<noteq> None)"
  using assms by (simp add: cancel_send_def handle_defs split: option.splits)

lemma handles_batch:
  assumes inv: "held_after (calls s) = Some (currently_uploading s \<noteq> None)"
    and adm: "q_requested_blob qs = None \<or> currently_uploading s = None"
  shows "held_after (calls (snd (handle_queries c qs s))) =
           Some (currently_uploading (snd (handle_queries c qs s)) \<noteq> None)"
proof (cases "q_requested_blob qs")
  case None
  with inv show ?thesis by (simp add: handles_batch_without_download)
next
  case (Some inc)
  with adm have idle: "currently_uploading s = None" by simp
  let ?d = "handle_queries c (qs\<lparr>q_requested_blob := None\<rparr>) s"
  have same: "held_after (calls (snd ?d)) = held_after (calls s)
              \<and> currently_uploading (snd ?d) = currently_uploading s"
    by (rule handles_batch_without_download) simp
  obtain res s1 where d: "?d = (res, s1)" by (cases ?d)
  with same inv idle have s1: "held_after (calls s1) = Some False" "currently_uploading s1 = None"
    by simp_all
  show ?thesis
  proof (cases res)
    case (Inl e)
    with d s1 show ?thesis
      by (simp add: handle_queries_download [OF Some] addCallback_def)
  next
    case (Inr r)
    with d handles_send_request [OF s1] show ?thesis
      by (simp add: handle_queries_download [OF Some] addCallback_def)
  qed
qed

lemma handles_step:
  assumes "held_after (calls s) = Some (currently_uploading s \<noteq> None)"
    and "admissible e s"
  shows "held_after (calls (step e s)) = Some (currently_uploading (step e s) \<noteq> None)"
proof (cases e)
  case (Handle_Queries c qs)
  with assms show ?thesis by (simp add: handles_batch)
next
  case (Transfer_Done ok)
  with assms show ?thesis
    by (simp add: transfer_done_def handles_set_not_uploading handles_set_expected_payment)
next
  case Cancel_Send
  with assms show ?thesis by (simp add: handles_cancel_send)
next
  case (Register p)
  with assms show ?thesis by (simp add: register_with_request_handler_def)
next
  case Send_Blob_If_Requested
  with assms show ?thesis
    by (simp add: send_blob_if_requested_def send_file_def start_transfer_def handle_defs
        split: option.splits)
next
  case (Count_Bytes n)
  with assms show ?thesis by (simp add: count_bytes_def handle_defs split: option.splits)
qed

lemma handles_run:
  assumes "held_after (calls s) = Some (currently_uploading s \<noteq> None)"
    and "one_at_a_time es s"
  shows "held_after (calls (run es s)) = Some (currently_uploading (run es s) \<noteq> None)"
  using assms
proof (induction es arbitrary: s)
  case Nil
  then show ?case by simp
next
  case (Cons e es)
  from Cons.prems have "held_after (calls (step e s)) = Some (currently_uploading (step e s) \<noteq> None)"
    by (simp add: handles_step)
  moreover from Cons.prems have "one_at_a_time es (step e s)" by simp
  ultimately show ?case using Cons.IH by simp
qed

lemma track_counts:
  "fold track cs (Some h0) = Some h1 \<Longrightarrow>
   length (filter is_open cs) + (if h0 then 1 else 0) =
   length (filter is_close cs) + (if h1 then 1 else 0)"
proof (induction cs arbitrary: h0)
  case Nil
  then show ?case by auto
next
  case (Cons c cs)
  show ?case
  proof (cases "track c (Some h0)")
    case None
    with Cons.prems have "fold track cs None = Some h1" by simp
    moreover have "fold track cs None = None" by (induction cs) simp_all
    ultimately show ?thesis by simp
  next
    case (Some h)
    with Cons.prems have "fold track cs (Some h) = Some h1" by simp
    from Cons.IH [OF this] Some show ?thesis
      by (auto simp add: is_open_def is_close_def split: if_splits call.splits option.splits)
  qed
qed


lemmas step_defs = run_defs send_blob_if_requested_def send_file_def start_transfer_def
  count_bytes_def cancel_send_def transfer_defs

text \<open>
  Claim C5, as the code has it: in every run from the new handler in which a download
  request is only handled while no blob is being uploaded, handles are acquired and
  released in turn (never two acquired without a release between them, never one
  released that is not held), and the number of handles acquired is the number released,
  plus one while a blob is being uploaded.
\<close>

theorem handles_balanced:
  assumes "one_at_a_time es init"
  shows "held_after (calls (run es init)) = Some (currently_uploading (run es init) \<noteq> None)
       \<and> opens (calls (run es init)) =
           closes (calls (run es init))
             + (if currently_uploading (run es init) = None then 0 else 1)"
proof -
  have "held_after (calls init) = Some (currently_uploading init \<noteq> None)"
    by (simp add: init_def held_after_def)
  from handles_run [OF this assms]
  have held: "held_after (calls (run es init)) = Some (currently_uploading (run es init) \<noteq> None)" .
  then have "fold track (calls (run es init)) (Some False) =
               Some (currently_uploading (run es init) \<noteq> None)"
    by (simp add: held_after_def)
  from track_counts [OF this] held show ?thesis
    by (simp add: opens_def closes_def)
qed

lemma calls_cancelled_then_sent:
  "calls (run cancelled_then_sent init) =
     [Get_Blob ''X'', Open_For_Reading blob_X (Some 7),
      Add_Blob_To_Upload_History blob_X ''10.0.0.1'' (1 / 2),
      Begin_File_Transfer 7, Update_Stats ''blob_bytes_uploaded'' 200000,
      Close_Read_Handle blob_X (Some 7),
      Get_Blob ''X'', Open_For_Reading blob_X (Some 7),
      Add_Blob_To_Upload_History blob_X ''10.0.0.1'' (1 / 2),
      Begin_File_Transfer 7, Update_Stats ''blob_bytes_uploaded'' 1048576,
      Add_Expected_Payment (Some example_peer) (1 / 2),
      Update_Stats ''blobs_uploaded'' 1,
      Close_Read_Handle blob_X (Some 7)]"
  by (simp add: cancelled_then_sent_def step_defs example_defs)

lemma calls_two_downloads:
  "calls (run two_downloads init) =
     [Get_Blob ''X'', Open_For_Reading blob_X (Some 7),
      Add_Blob_To_Upload_History blob_X ''10.0.0.1'' (1 / 2),
      Get_Blob ''X'', Open_For_Reading blob_X (Some 7),
      Add_Blob_To_Upload_History blob_X ''10.0.0.1'' (1 / 2),
      Begin_File_Transfer 7, Update_Stats ''blob_bytes_uploaded'' 1048576,
      Add_Expected_Payment (Some example_peer) (1 / 2),
      Update_Stats ''blobs_uploaded'' 1,
      Close_Read_Handle blob_X (Some 7)]"
  by (simp add: two_downloads_def step_defs example_defs)

lemmas count_defs = opens_def closes_def held_after_def is_open_def is_close_def

theorem handles_balanced_witness:
  "one_at_a_time cancelled_then_sent init
   \<and> currently_uploading (run cancelled_then_sent init) = None
   \<and> held_after (calls (run cancelled_then_sent init)) = Some False
   \<and> opens (calls (run cancelled_then_sent init)) = 2
   \<and> closes (calls (run cancelled_then_sent init)) = 2"
proof -
  have a: "one_at_a_time cancelled_then_sent init"
    by (simp add: cancelled_then_sent_def step_defs example_defs)
  have b: "currently_uploading (run cancelled_then_sent init) = None"
    by (simp add: cancelled_then_sent_def step_defs example_defs)
  have c: "opens (calls (run cancelled_then_sent init)) = 2"
    by (simp add: calls_cancelled_then_sent count_defs)
  from handles_balanced [OF a] b c show ?thesis using a by simp
qed

text \<open>
  Claim C5 as it is stated fails at the run \<open>two_downloads\<close>: the second download
  request acquires a handle while the first is still held, and at the end, with no blob
  being uploaded, two handles have been acquired and one released.
\<close>

theorem second_download_leaks_handle:
  "currently_uploading (run two_downloads init) = None
   \<and> opens (calls (run two_downloads init)) = 2
   \<and> closes (calls (run two_downloads init)) = 1
   \<and> held_after (calls (run two_downloads init)) = None"
proof -
  have "currently_uploading (run two_downloads init) = None"
    by (simp add: two_downloads_def step_defs example_defs)
  then show ?thesis by (simp add: calls_two_downloads count_defs)
qed


end
